theory Spec2Isabelle
  imports Main "HOL-Library.Monad_Syntax"
begin

section \<open>Python values used by the scraper\<close>

text \<open>
  A table cell is a Python \<^verbatim>\<open>str\<close> or \<^verbatim>\<open>None\<close>: \<open>Some s\<close> is the string \<open>s\<close>,
  \<open>None\<close> is Python's \<^verbatim>\<open>None\<close>. Strings are lists of 8-bit characters, read as the
  code points 0..255. Exceptions are values of \<open>py_error\<close>; a function that can raise
  returns \<open>py_error + 'a\<close>, with \<open>Inl\<close> the exception that escapes.
\<close>

type_synonym cell = "string option"

datatype py_error = IndexError | TypeError | ValueError | UnboundLocalError | RequestError

text \<open>\<^verbatim>\<open>not cell\<close>: \<^verbatim>\<open>None\<close> and the empty string are the falsy cells.\<close>

definition falsy :: "cell \<Rightarrow> bool" where
  "falsy c = (case c of None \<Rightarrow> True | Some s \<Rightarrow> s = [])"

text \<open>The archive's marker for "not applicable".\<close>

definition NA :: string where
  "NA = ''N / A''"

text \<open>
  \<^verbatim>\<open>str.isspace\<close> on the code points below 256: tab to carriage return, the four
  separators 0x1C..0x1F, the space, NEL (0x85) and the no-break space (0xA0).
\<close>

definition isspace :: "char \<Rightarrow> bool" where
  "isspace c = (let n = (of_char c :: nat) in
     (9 \<le> n \<and> n \<le> 13) \<or> (28 \<le> n \<and> n \<le> 32) \<or> n = 133 \<or> n = 160)"

text \<open>\<^verbatim>\<open>s.split()\<close>: the maximal runs of characters that are not white space.\<close>

fun split_ws :: "string \<Rightarrow> string \<Rightarrow> string list" where
  "split_ws tok [] = (if tok = [] then [] else [rev tok])"
| "split_ws tok (c # cs) =
     (if isspace c then (if tok = [] then split_ws [] cs else rev tok # split_ws [] cs)
      else split_ws (c # tok) cs)"

definition split :: "string \<Rightarrow> string list" where
  "split s = split_ws [] s"

section \<open>Row normalizer: \<^verbatim>\<open>add_missing_dates_and_empty_cells\<close>\<close>

text \<open>
  Line 70: \<^verbatim>\<open>data[0] = ['N / A' if not cell else cell for cell in data[0]]\<close>.
\<close>

definition fill_first :: "cell list \<Rightarrow> cell list" where
  "fill_first row = map (\<lambda>c. if falsy c then Some NA else c) row"

text \<open>
  Lines 72-76, the datetime cell of one row. \<^verbatim>\<open>row[1]\<close> raises IndexError on a row
  with fewer than two cells, \<^verbatim>\<open>" " in None\<close> raises TypeError, and
  \<^verbatim>\<open>datetime_cell.split()[0]\<close> raises IndexError when the cell holds white space only.
  The result is the new running date and the row with its cell 1 rewritten.
\<close>

definition fix_datetime :: "string option \<Rightarrow> cell list \<Rightarrow> py_error + (string option \<times> cell list)" where
  "fix_datetime last_date row =
     (if length row < 2 then Inl IndexError
      else case row ! 1 of
        None \<Rightarrow> Inl TypeError
      | Some datetime_cell \<Rightarrow>
          if CHR '' '' \<in> set datetime_cell then
            (case split datetime_cell of
               [] \<Rightarrow> Inl IndexError
             | d # _ \<Rightarrow> Inr (Some d, row))
          else
            Inr (last_date,
                 row[1 := Some (case last_date of
                                  None \<Rightarrow> datetime_cell
                                | Some d \<Rightarrow> if d = [] then datetime_cell
                                            else d @ '' '' @ datetime_cell)]))"

text \<open>
  Lines 78-81, the body of the loop over the cells, at index \<open>i\<close>. The marker becomes
  \<^verbatim>\<open>None\<close>; a falsy cell takes \<^verbatim>\<open>last_row[i]\<close> when \<^verbatim>\<open>last_row\<close> is truthy (a non-empty
  list), and \<^verbatim>\<open>last_row[i]\<close> raises IndexError on a shorter previous row.
\<close>

definition fill_cell :: "cell list option \<Rightarrow> nat \<Rightarrow> cell \<Rightarrow> py_error + cell" where
  "fill_cell last_row i c =
     (if c = Some NA then Inr None
      else if falsy c then
        (case last_row of
           None \<Rightarrow> Inr c
         | Some lr \<Rightarrow>
             if lr = [] then Inr c
             else if i < length lr then Inr (lr ! i)
             else Inl IndexError)
      else Inr c)"

text \<open>Line 77, the loop over the cells of one row, from index \<open>i\<close> on.\<close>

fun fill_cells :: "cell list option \<Rightarrow> nat \<Rightarrow> cell list \<Rightarrow> py_error + cell list" where
  "fill_cells last_row i [] = Inr []"
| "fill_cells last_row i (c # cs) =
     (case fill_cell last_row i c of
        Inl e \<Rightarrow> Inl e
      | Inr v \<Rightarrow>
          (case fill_cells last_row (Suc i) cs of
             Inl e \<Rightarrow> Inl e
           | Inr r \<Rightarrow> Inr (v # r)))"

text \<open>Lines 71-82, the loop over the rows, with its two running variables.\<close>

fun normalize_rows ::
  "string option \<Rightarrow> cell list option \<Rightarrow> cell list list \<Rightarrow> py_error + cell list list" where
  "normalize_rows last_date last_row [] = Inr []"
| "normalize_rows last_date last_row (row # rest) =
     (case fix_datetime last_date row of
        Inl e \<Rightarrow> Inl e
      | Inr (last_date', row') \<Rightarrow>
          (case fill_cells last_row 0 row' of
             Inl e \<Rightarrow> Inl e
           | Inr row'' \<Rightarrow>
               (case normalize_rows last_date' (Some row'') rest of
                  Inl e \<Rightarrow> Inl e
                | Inr out \<Rightarrow> Inr (row'' # out))))"

definition add_missing_dates_and_empty_cells :: "cell list list \<Rightarrow> py_error + cell list list" where
  "add_missing_dates_and_empty_cells data =
     normalize_rows None None (case data of [] \<Rightarrow> [] | r # rs \<Rightarrow> fill_first r # rs)"

section \<open>Library functions of Python that the record builder calls\<close>

text \<open>
  \<^verbatim>\<open>int(s)\<close> on a string: white space is stripped at both ends, one sign is
  allowed, and the rest is decimal digits, with single underscores allowed between two
  digits. \<open>None\<close> stands for the ValueError that \<^verbatim>\<open>int\<close> raises otherwise. (The limit on
  the number of digits of recent interpreters is not modelled.)
\<close>

definition is_digit :: "char \<Rightarrow> bool" where
  "is_digit c = (let n = (of_char c :: nat) in 48 \<le> n \<and> n \<le> 57)"

definition digit_val :: "char \<Rightarrow> nat" where
  "digit_val c = of_char c - 48"

definition strip :: "string \<Rightarrow> string" where
  "strip s = rev (dropWhile isspace (rev (dropWhile isspace s)))"

fun int_body :: "nat \<Rightarrow> bool \<Rightarrow> string \<Rightarrow> nat option" where
  "int_body acc prev [] = (if prev then Some acc else None)"
| "int_body acc prev (c # cs) =
     (if is_digit c then int_body (10 * acc + digit_val c) True cs
      else if c = CHR ''_'' \<and> prev then int_body acc False cs
      else None)"

definition py_int :: "string \<Rightarrow> int option" where
  "py_int s =
     (case strip s of
        [] \<Rightarrow> None
      | c # cs \<Rightarrow>
          if c = CHR ''-'' then map_option (\<lambda>n. - int n) (int_body 0 False cs)
          else if c = CHR ''+'' then map_option int (int_body 0 False cs)
          else map_option int (int_body 0 False (c # cs)))"

text \<open>\<^verbatim>\<open>str(n)\<close> on an integer: its decimal digits, with a minus sign when negative.\<close>

definition digit_char :: "nat \<Rightarrow> char" where
  "digit_char n = char_of (48 + n)"

fun str_nat :: "nat \<Rightarrow> string" where
  "str_nat n = (if n < 10 then [digit_char n] else str_nat (n div 10) @ [digit_char (n mod 10)])"

declare str_nat.simps [simp del]

definition py_str :: "int \<Rightarrow> string" where
  "py_str n = (if n < 0 then CHR ''-'' # str_nat (nat (- n)) else str_nat (nat n))"

text \<open>
  \<^verbatim>\<open>datetime.strptime(s, "%Y-%m-%d %H:%M:%S")\<close>. The library turns the format into the
  regular expression
  \<^verbatim>\<open>(\d\d\d\d)-(1[0-2]|0[1-9]|[1-9])-(3[01]|[12]\d|0[1-9]|[1-9]| [1-9])\s+(2[0-3]|[0-1]\d|\d):([0-5]\d|\d):(6[01]|[0-5]\d|\d)\<close>,
  matches it at the start of the string and raises ValueError when the match fails, when
  text remains after it, or when the numbers are no date and time of the calendar
  (year 0, a day beyond the month, second 60 or 61). Every two-character alternative of a
  field ends in a digit and the separator after the field is no digit, so the first
  alternative that matches is the only one that can let the rest match: \<open>field\<close> takes
  it without looking back. \<open>None\<close> stands for the ValueError.
\<close>

record datetime =
  dt_year :: nat
  dt_month :: nat
  dt_day :: nat
  dt_hour :: nat
  dt_minute :: nat
  dt_second :: nat

definition field :: "(char \<Rightarrow> char \<Rightarrow> bool) \<Rightarrow> (char \<Rightarrow> bool) \<Rightarrow> string \<Rightarrow> (nat \<times> string) option" where
  "field two one s =
     (case s of
        [] \<Rightarrow> None
      | [a] \<Rightarrow> if one a then Some (digit_val a, []) else None
      | a # b # r \<Rightarrow>
          if two a b then Some ((if is_digit a then 10 * digit_val a else 0) + digit_val b, r)
          else if one a then Some (digit_val a, b # r)
          else None)"

definition expect :: "char \<Rightarrow> string \<Rightarrow> string option" where
  "expect c s = (case s of [] \<Rightarrow> None | a # r \<Rightarrow> if a = c then Some r else None)"

definition spaces1 :: "string \<Rightarrow> string option" where
  "spaces1 s = (case s of [] \<Rightarrow> None | a # r \<Rightarrow> if isspace a then Some (dropWhile isspace r) else None)"

definition year4 :: "string \<Rightarrow> (nat \<times> string) option" where
  "year4 s =
     (case s of
        a # b # c # d # r \<Rightarrow>
          if is_digit a \<and> is_digit b \<and> is_digit c \<and> is_digit d
          then Some (1000 * digit_val a + 100 * digit_val b + 10 * digit_val c + digit_val d, r)
          else None
      | _ \<Rightarrow> None)"

definition in_range :: "char \<Rightarrow> nat \<Rightarrow> nat \<Rightarrow> bool" where
  "in_range c lo hi = (is_digit c \<and> lo \<le> digit_val c \<and> digit_val c \<le> hi)"

definition month_two :: "char \<Rightarrow> char \<Rightarrow> bool" where
  "month_two a b = ((a = CHR ''1'' \<and> in_range b 0 2) \<or> (a = CHR ''0'' \<and> in_range b 1 9))"

definition day_two :: "char \<Rightarrow> char \<Rightarrow> bool" where
  "day_two a b = ((a = CHR ''3'' \<and> in_range b 0 1) \<or> (in_range a 1 2 \<and> is_digit b)
                  \<or> (a = CHR ''0'' \<and> in_range b 1 9) \<or> (a = CHR '' '' \<and> in_range b 1 9))"

definition hour_two :: "char \<Rightarrow> char \<Rightarrow> bool" where
  "hour_two a b = ((a = CHR ''2'' \<and> in_range b 0 3) \<or> (in_range a 0 1 \<and> is_digit b))"

definition minute_two :: "char \<Rightarrow> char \<Rightarrow> bool" where
  "minute_two a b = (in_range a 0 5 \<and> is_digit b)"

definition second_two :: "char \<Rightarrow> char \<Rightarrow> bool" where
  "second_two a b = ((a = CHR ''6'' \<and> in_range b 0 1) \<or> (in_range a 0 5 \<and> is_digit b))"

definition leap_year :: "nat \<Rightarrow> bool" where
  "leap_year y = (y mod 4 = 0 \<and> (y mod 100 \<noteq> 0 \<or> y mod 400 = 0))"

definition days_in_month :: "nat \<Rightarrow> nat \<Rightarrow> nat" where
  "days_in_month y m =
     (if m = 2 then (if leap_year y then 29 else 28)
      else if m = 4 \<or> m = 6 \<or> m = 9 \<or> m = 11 then 30 else 31)"

definition valid_datetime :: "datetime \<Rightarrow> bool" where
  "valid_datetime t =
     (1 \<le> dt_year t \<and> 1 \<le> dt_month t \<and> dt_month t \<le> 12
      \<and> 1 \<le> dt_day t \<and> dt_day t \<le> days_in_month (dt_year t) (dt_month t)
      \<and> dt_hour t \<le> 23 \<and> dt_minute t \<le> 59 \<and> dt_second t \<le> 59)"

definition strptime :: "string \<Rightarrow> datetime option" where
  "strptime s = do {
     (y, s1) \<leftarrow> year4 s;
     s2 \<leftarrow> expect (CHR ''-'') s1;
     (m, s3) \<leftarrow> field month_two (\<lambda>a. in_range a 1 9) s2;
     s4 \<leftarrow> expect (CHR ''-'') s3;
     (d, s5) \<leftarrow> field day_two (\<lambda>a. in_range a 1 9) s4;
     s6 \<leftarrow> spaces1 s5;
     (H, s7) \<leftarrow> field hour_two is_digit s6;
     s8 \<leftarrow> expect (CHR '':'') s7;
     (M, s9) \<leftarrow> field minute_two is_digit s8;
     s10 \<leftarrow> expect (CHR '':'') s9;
     (S, s11) \<leftarrow> field second_two is_digit s10;
     (let t = \<lparr>dt_year = y, dt_month = m, dt_day = d, dt_hour = H, dt_minute = M, dt_second = S\<rparr>
      in if s11 = [] \<and> valid_datetime t then Some t else None)
   }"

text \<open>
  \<^verbatim>\<open>t.strftime("%Y-%m-%d %H:%M")\<close>, every field padded with zeros to its width, as the
  library documents it.
\<close>

definition pad2 :: "nat \<Rightarrow> string" where
  "pad2 n = [digit_char (n div 10 mod 10), digit_char (n mod 10)]"

definition pad4 :: "nat \<Rightarrow> string" where
  "pad4 n = [digit_char (n div 1000 mod 10), digit_char (n div 100 mod 10),
             digit_char (n div 10 mod 10), digit_char (n mod 10)]"

definition strftime :: "datetime \<Rightarrow> string" where
  "strftime t = pad4 (dt_year t) @ ''-'' @ pad2 (dt_month t) @ ''-'' @ pad2 (dt_day t)
                @ '' '' @ pad2 (dt_hour t) @ '':'' @ pad2 (dt_minute t)"

section \<open>Track record builder: the loop body of \<^verbatim>\<open>save_data_as_json\<close>\<close>

text \<open>
  The month filter comes from \<^verbatim>\<open>input()\<close> as a string, or from a caller as an integer.
  \<^verbatim>\<open>if month\<close> holds for a non-empty string and for a non-zero integer; \<^verbatim>\<open>int(month)\<close>
  parses the string (\<open>None\<close> is its ValueError) and keeps the integer.
\<close>

datatype pyarg = PyInt int | PyStr string

definition truthy_arg :: "pyarg \<Rightarrow> bool" where
  "truthy_arg a = (case a of PyInt n \<Rightarrow> n \<noteq> 0 | PyStr s \<Rightarrow> s \<noteq> [])"

definition int_arg :: "pyarg \<Rightarrow> int option" where
  "int_arg a = (case a of PyInt n \<Rightarrow> Some n | PyStr s \<Rightarrow> py_int s)"

text \<open>
  Lines 140-148. The result \<open>None\<close> is the \<^verbatim>\<open>continue\<close> of line 145: the row is
  skipped. The \<^verbatim>\<open>except ValueError: pass\<close> catches the ValueError of \<^verbatim>\<open>strptime\<close> and
  also that of \<^verbatim>\<open>int(month)\<close>; in both cases \<^verbatim>\<open>time\<close> keeps the text of the cell.
\<close>

definition convert_time :: "pyarg option \<Rightarrow> cell \<Rightarrow> cell option" where
  "convert_time month time =
     (case time of
        None \<Rightarrow> Some time
      | Some s \<Rightarrow>
          if s = [] then Some time
          else (case strptime s of
                  None \<Rightarrow> Some time
                | Some time_obj \<Rightarrow>
                    (case month of
                       None \<Rightarrow> Some (Some (strftime time_obj))
                     | Some mo \<Rightarrow>
                         if truthy_arg mo then
                           (case int_arg mo of
                              None \<Rightarrow> Some time
                            | Some m \<Rightarrow>
                                if int (dt_month time_obj) \<noteq> m then None
                                else Some (Some (strftime time_obj)))
                         else Some (Some (strftime time_obj)))))"

text \<open>Lines 149-152: \<^verbatim>\<open>row[i] if row[i] != "N / A" else None\<close>.\<close>

definition column :: "cell list \<Rightarrow> nat \<Rightarrow> py_error + cell" where
  "column row i =
     (if i < length row then Inr (if row ! i \<noteq> Some NA then row ! i else None)
      else Inl IndexError)"

text \<open>
  Lines 155-166, the chain of \<^verbatim>\<open>if\<close>/\<^verbatim>\<open>elif\<close> without a final \<^verbatim>\<open>else\<close>: \<open>None\<close> would
  be the case where no branch assigns \<^verbatim>\<open>typhoon_class\<close>.
\<close>

definition typhoon_class_of :: "int \<Rightarrow> nat option" where
  "typhoon_class_of speed =
     (if speed < 34 then Some 0
      else if 34 \<le> speed \<and> speed \<le> 63 then Some 1
      else if 64 \<le> speed \<and> speed \<le> 82 then Some 2
      else if 83 \<le> speed \<and> speed \<le> 95 then Some 3
      else if 96 \<le> speed \<and> speed \<le> 112 then Some 4
      else if speed \<ge> 113 then Some 5
      else None)"

text \<open>
  The bands of the specification, in its words: below 34 is class 0, 34 to 63 class 1,
  64 to 82 class 2, 83 to 95 class 3, 96 to 112 class 4, 113 and above class 5.
\<close>

definition spec_band :: "int \<Rightarrow> nat \<Rightarrow> bool" where
  "spec_band n k =
     ((n < 34 \<and> k = 0) \<or> (34 \<le> n \<and> n \<le> 63 \<and> k = 1) \<or> (64 \<le> n \<and> n \<le> 82 \<and> k = 2)
      \<or> (83 \<le> n \<and> n \<le> 95 \<and> k = 3) \<or> (96 \<le> n \<and> n \<le> 112 \<and> k = 4) \<or> (113 \<le> n \<and> k = 5))"

text \<open>
  Lines 153-168. The variable \<^verbatim>\<open>speed\<close> is an integer after the branch of line 154 and
  stays falsy (\<^verbatim>\<open>None\<close> or the empty string) otherwise: \<open>Some n\<close> is the integer, \<open>None\<close>
  the falsy value. The second component is \<^verbatim>\<open>typhoon_class\<close>.
\<close>

definition classify_speed :: "cell \<Rightarrow> py_error + (int option \<times> nat)" where
  "classify_speed speed =
     (case speed of
        None \<Rightarrow> Inr (None, 0)
      | Some s \<Rightarrow>
          if s = [] then Inr (None, 0)
          else (case py_int s of
                  None \<Rightarrow> Inl ValueError
                | Some n \<Rightarrow>
                    (case typhoon_class_of n of
                       None \<Rightarrow> Inl UnboundLocalError
                     | Some k \<Rightarrow> Inr (Some n, k))))"

text \<open>Line 173: \<^verbatim>\<open>str(speed) if speed else "< 35"\<close>, on the variable after line 154.\<close>

definition render_speed :: "int option \<Rightarrow> string" where
  "render_speed speed = (case speed of None \<Rightarrow> ''< 35'' | Some n \<Rightarrow> if n \<noteq> 0 then py_str n else ''< 35'')"

text \<open>Line 174: \<^verbatim>\<open>str(pressure) if pressure else "> 1008"\<close>, on the cell.\<close>

definition render_pressure :: "cell \<Rightarrow> string" where
  "render_pressure pressure = (case pressure of None \<Rightarrow> ''> 1008'' | Some s \<Rightarrow> if s \<noteq> [] then s else ''> 1008'')"

text \<open>
  Lines 171-172: \<^verbatim>\<open>float(lat) if lat else None\<close>. The parser of floating point numbers
  is a parameter \<open>to_float\<close>, \<open>None\<close> its ValueError.
\<close>

definition float_cell :: "(string \<Rightarrow> 'f option) \<Rightarrow> cell \<Rightarrow> py_error + 'f option" where
  "float_cell to_float c =
     (case c of
        None \<Rightarrow> Inr None
      | Some s \<Rightarrow>
          if s = [] then Inr None
          else (case to_float s of None \<Rightarrow> Inl ValueError | Some x \<Rightarrow> Inr (Some x)))"

record 'f trackpoint =
  tp_time :: cell
  tp_lat :: "'f option"
  tp_long :: "'f option"
  tp_speed :: string
  tp_pressure :: string
  tp_class :: nat

text \<open>Lines 140-176, one row; \<open>Inr None\<close> is the row skipped by the month filter.\<close>

definition convert_row ::
  "(string \<Rightarrow> 'f option) \<Rightarrow> pyarg option \<Rightarrow> cell list \<Rightarrow> py_error + 'f trackpoint option" where
  "convert_row to_float month row =
     (if length row < 2 then Inl IndexError
      else case convert_time month (row ! 1) of
        None \<Rightarrow> Inr None
      | Some time \<Rightarrow>
         (case column row 3 of Inl e \<Rightarrow> Inl e | Inr lat \<Rightarrow>
         (case column row 4 of Inl e \<Rightarrow> Inl e | Inr long \<Rightarrow>
         (case column row 5 of Inl e \<Rightarrow> Inl e | Inr speed \<Rightarrow>
         (case column row 6 of Inl e \<Rightarrow> Inl e | Inr pressure \<Rightarrow>
         (case classify_speed speed of Inl e \<Rightarrow> Inl e | Inr (speed', typhoon_class) \<Rightarrow>
         (case float_cell to_float lat of Inl e \<Rightarrow> Inl e | Inr lat' \<Rightarrow>
         (case float_cell to_float long of Inl e \<Rightarrow> Inl e | Inr long' \<Rightarrow>
            Inr (Some \<lparr>tp_time = time, tp_lat = lat', tp_long = long',
                       tp_speed = render_speed speed',
                       tp_pressure = render_pressure pressure,
                       tp_class = typhoon_class\<rparr>)))))))))"

text \<open>Lines 139-176, the loop that appends to \<^verbatim>\<open>typhoon_data["path"]\<close>.\<close>

fun build_path ::
  "(string \<Rightarrow> 'f option) \<Rightarrow> pyarg option \<Rightarrow> cell list list \<Rightarrow> py_error + 'f trackpoint list" where
  "build_path to_float month [] = Inr []"
| "build_path to_float month (row # rows) =
     (case convert_row to_float month row of
        Inl e \<Rightarrow> Inl e
      | Inr None \<Rightarrow> build_path to_float month rows
      | Inr (Some p) \<Rightarrow>
          (case build_path to_float month rows of
             Inl e \<Rightarrow> Inl e
           | Inr ps \<Rightarrow> Inr (p # ps)))"

text \<open>
  Lines 177-183. The key \<^verbatim>\<open>start_time\<close> is not set for an empty table (\<open>Unset\<close>), is
  \<^verbatim>\<open>None\<close> after a ValueError (\<open>Null\<close>), and is the epoch seconds otherwise. Only
  ValueError is caught: \<^verbatim>\<open>strptime(None, ...)\<close> raises TypeError. The conversion of a
  naive local time to epoch seconds depends on the time zone of the machine and is the
  parameter \<open>timestamp\<close>.
\<close>

datatype start = Unset | Null | Epoch int

definition start_time_of :: "(datetime \<Rightarrow> int) \<Rightarrow> cell list list \<Rightarrow> py_error + start" where
  "start_time_of timestamp processed_data =
     (case processed_data of
        [] \<Rightarrow> Inr Unset
      | row # _ \<Rightarrow>
          if length row < 2 then Inl IndexError
          else (case row ! 1 of
                  None \<Rightarrow> Inl TypeError
                | Some s \<Rightarrow>
                    (case strptime s of
                       None \<Rightarrow> Inr Null
                     | Some t \<Rightarrow> Inr (Epoch (timestamp (t\<lparr>dt_second := 0\<rparr>))))))"

record 'f storm =
  name :: string
  path :: "'f trackpoint list"
  start_time :: start

text \<open>Lines 129-133: the second token from the end of the heading, or the sentinel.\<close>

definition working_name :: "string \<Rightarrow> string" where
  "working_name typhoon_name =
     (let composite_name = split typhoon_name
      in if length composite_name \<ge> 2 then composite_name ! (length composite_name - 2)
         else ''UNKNOWN'')"

text \<open>Lines 137-184 for one storm: normalize, build the path, set the start time.\<close>

definition build_track ::
  "(string \<Rightarrow> 'f option) \<Rightarrow> (datetime \<Rightarrow> int) \<Rightarrow> pyarg option \<Rightarrow> string \<Rightarrow> cell list list
   \<Rightarrow> py_error + 'f storm" where
  "build_track to_float timestamp month typhoon_name fourth_table_data =
     (case add_missing_dates_and_empty_cells fourth_table_data of
        Inl e \<Rightarrow> Inl e
      | Inr processed_data \<Rightarrow>
          (case build_path to_float month processed_data of
             Inl e \<Rightarrow> Inl e
           | Inr p \<Rightarrow>
               (case start_time_of timestamp processed_data of
                  Inl e \<Rightarrow> Inl e
                | Inr st \<Rightarrow> Inr \<lparr>name = typhoon_name, path = p, start_time = st\<rparr>)))"

section \<open>The pipeline and the dataset cache\<close>

text \<open>
  The network, the HTML parser, the floating point parser, the clock and the JSON codec
  are outside the repository: they are the fields of an environment. A collaborator
  that raises returns \<open>Inl\<close>. \<open>json_load\<close> returns \<open>None\<close> for its JSONDecodeError; a
  cache file is taken to hold the text of a dataset (a list of storms) or text that does
  not decode, other JSON values are not modelled.
\<close>

record 'f env =
  fetch_year_page :: "string \<Rightarrow> py_error + string option"
  extract_links_from_second_table :: "string option \<Rightarrow> py_error + (string \<times> string list) list option"
  get_typhoon_name_from_link :: "string \<Rightarrow> py_error + string option"
  scrape_fourth_table :: "string \<Rightarrow> py_error + string list list option"
  to_float :: "string \<Rightarrow> 'f option"
  timestamp :: "datetime \<Rightarrow> int"
  json_dump :: "'f storm list \<Rightarrow> string"
  json_load :: "string \<Rightarrow> 'f storm list option"

text \<open>
  The files of the cache folder: a map from a path to the text of the file. Creating
  the folder and failures of the operating system are not modelled.
\<close>

type_synonym files = "string \<rightharpoonup> string"

definition BASIN_ABBREVIATIONS :: "(string \<times> string) list" where
  "BASIN_ABBREVIATIONS =
     [(''Northern Atlantic'', ''na''), (''Eastern Pacific'', ''ep''), (''Western Pacific'', ''wp''),
      (''Northern Indian'', ''ni''), (''Southern Indian'', ''si''), (''Southern Pacific'', ''sp'')]"

definition path_join :: "string \<Rightarrow> string \<Rightarrow> string" where
  "path_join folder file =
     (if folder = [] then file
      else if last folder = CHR ''/'' then folder @ file
      else folder @ ''/'' @ file)"

definition cache_file :: "string \<Rightarrow> string \<Rightarrow> string \<Rightarrow> string" where
  "cache_file year basin_name folder_path =
     (let basin_abbr = (case map_of BASIN_ABBREVIATIONS basin_name of
                          Some a \<Rightarrow> a | None \<Rightarrow> ''unknown'')
      in path_join folder_path (basin_abbr @ ''_'' @ year @ ''_data.json''))"

definition save_cache ::
  "('d \<Rightarrow> string) \<Rightarrow> 'd \<Rightarrow> string \<Rightarrow> string \<Rightarrow> string \<Rightarrow> files \<Rightarrow> files" where
  "save_cache dump data year basin_name folder_path fs =
     fs(cache_file year basin_name folder_path \<mapsto> dump data)"

definition load_cache ::
  "(string \<Rightarrow> 'd option) \<Rightarrow> string \<Rightarrow> string \<Rightarrow> string \<Rightarrow> files \<Rightarrow> 'd option" where
  "load_cache load year basin_name folder_path fs =
     (case fs (cache_file year basin_name folder_path) of
        None \<Rightarrow> None
      | Some text \<Rightarrow> load text)"

text \<open>Lines 125-184, one link: \<open>Inr None\<close> is a \<^verbatim>\<open>continue\<close>.\<close>

definition process_link :: "'f env \<Rightarrow> pyarg option \<Rightarrow> string \<Rightarrow> py_error + 'f storm option" where
  "process_link E month link =
     (case get_typhoon_name_from_link E link of
        Inl e \<Rightarrow> Inl e
      | Inr None \<Rightarrow> Inr None
      | Inr (Some typhoon_name) \<Rightarrow>
          if typhoon_name = [] then Inr None
          else (case scrape_fourth_table E link of
                  Inl e \<Rightarrow> Inl e
                | Inr None \<Rightarrow> Inr None
                | Inr (Some fourth_table_data) \<Rightarrow>
                    if fourth_table_data = [] then Inr None
                    else (case build_track (to_float E) (timestamp E) month
                                 (working_name typhoon_name)
                                 (map (map Some) fourth_table_data) of
                            Inl e \<Rightarrow> Inl e
                          | Inr typhoon_data \<Rightarrow> Inr (Some typhoon_data))))"

fun process_links :: "'f env \<Rightarrow> pyarg option \<Rightarrow> string list \<Rightarrow> py_error + 'f storm list" where
  "process_links E month [] = Inr []"
| "process_links E month (link # links) =
     (case process_link E month link of
        Inl e \<Rightarrow> Inl e
      | Inr None \<Rightarrow> process_links E month links
      | Inr (Some typhoon_data) \<Rightarrow>
          (case process_links E month links of
             Inl e \<Rightarrow> Inl e
           | Inr all_typhoon_data \<Rightarrow> Inr (typhoon_data # all_typhoon_data)))"

text \<open>
  Lines 117-186. The result is the returned value (\<open>None\<close> for \<^verbatim>\<open>return None\<close>) and the
  files after the call. The dictionary of links is an association list.
\<close>

definition save_data_as_json ::
  "'f env \<Rightarrow> string \<Rightarrow> string \<Rightarrow> pyarg option \<Rightarrow> string \<Rightarrow> files
   \<Rightarrow> py_error + ('f storm list option \<times> files)" where
  "save_data_as_json E year basin_name month folder_path fs =
     (case fetch_year_page E year of
        Inl e \<Rightarrow> Inl e
      | Inr page \<Rightarrow>
          (case extract_links_from_second_table E page of
             Inl e \<Rightarrow> Inl e
           | Inr None \<Rightarrow> Inr (None, fs)
           | Inr (Some links_by_basin) \<Rightarrow>
               if links_by_basin = [] then Inr (None, fs)
               else (case map_of links_by_basin basin_name of
                       None \<Rightarrow> Inr (None, fs)
                     | Some links \<Rightarrow>
                         (case process_links E month links of
                            Inl e \<Rightarrow> Inl e
                          | Inr all_typhoon_data \<Rightarrow>
                              Inr (Some all_typhoon_data,
                                   save_cache (json_dump E) all_typhoon_data year basin_name
                                     folder_path fs)))))"

text \<open>Lines 188-194; \<^verbatim>\<open>if data\<close> holds for a non-empty list only.\<close>

definition scrape_typhoon_data ::
  "'f env \<Rightarrow> string \<Rightarrow> string \<Rightarrow> pyarg option \<Rightarrow> string \<Rightarrow> files
   \<Rightarrow> py_error + ('f storm list option \<times> files)" where
  "scrape_typhoon_data E year basin_name month folder_path fs =
     (case load_cache (json_load E) year basin_name folder_path fs of
        None \<Rightarrow> save_data_as_json E year basin_name month folder_path fs
      | Some data \<Rightarrow>
          if data \<noteq> [] then Inr (Some data, fs)
          else save_data_as_json E year basin_name month folder_path fs)"

section \<open>Properties of the row normalizer\<close>


lemma NA_not_falsy: "\<not> falsy (Some NA)"
  by (simp add: falsy_def NA_def)



lemma fill_cells_length: "fill_cells lr i row = Inr out \<Longrightarrow> length out = length row"
  by (induction row arbitrary: i out) (auto split: sum.splits)

lemma fill_cells_nth:
  "fill_cells lr i row = Inr out \<Longrightarrow> j < length row \<Longrightarrow> fill_cell lr (i + j) (row ! j) = Inr (out ! j)"
proof (induction row arbitrary: i out j)
  case Nil
  then show ?case by simp
next
  case (Cons c cs)
  from Cons.prems(1) obtain v r where v: "fill_cell lr i c = Inr v"
    and r: "fill_cells lr (Suc i) cs = Inr r" and out: "out = v # r"
    by (auto split: sum.splits)
  show ?case
  proof (cases j)
    case 0
    then show ?thesis by (simp add: out v)
  next
    case (Suc j')
    then have "j' < length cs" using Cons.prems(2) by simp
    from Cons.IH [OF r this] show ?thesis by (simp add: out Suc)
  qed
qed

lemma fix_datetime_length:
  "fix_datetime ld row = Inr (ld', row') \<Longrightarrow> length row' = length row \<and> 2 \<le> length row"
  by (auto simp: fix_datetime_def split: if_splits option.splits list.splits)

lemma fix_datetime_other:
  "fix_datetime ld row = Inr (ld', row') \<Longrightarrow> i \<noteq> 1 \<Longrightarrow> row' ! i = row ! i"
  by (auto simp: fix_datetime_def split: if_splits option.splits list.splits)

lemma fix_datetime_marker:
  assumes "fix_datetime ld row = Inr (ld', row')" and "row ! i = Some NA"
  shows "row' ! i = Some NA"
proof (cases "i = 1")
  case False
  then show ?thesis using assms by (simp add: fix_datetime_other)
next
  case True
  have "CHR '' '' \<in> set NA" by (simp add: NA_def)
  with assms True show ?thesis
    by (auto simp: fix_datetime_def split: if_splits list.splits)
qed

lemma normalize_rows_Cons:
  assumes "normalize_rows ld lr (row # rest) = Inr out"
  obtains ld' row' row'' out' where "fix_datetime ld row = Inr (ld', row')"
    and "fill_cells lr 0 row' = Inr row''"
    and "normalize_rows ld' (Some row'') rest = Inr out'"
    and "out = row'' # out'"
  using assms by (auto split: sum.splits prod.splits)


lemma normalize_rows_row_length:
  "normalize_rows ld lr data = Inr out \<Longrightarrow> k < length data \<Longrightarrow>
   length (out ! k) = length (data ! k) \<and> 2 \<le> length (data ! k)"
proof (induction data arbitrary: ld lr out k)
  case Nil
  then show ?case by simp
next
  case (Cons row rest)
  from Cons.prems(1) obtain ld' row' row'' out' where
    f: "fix_datetime ld row = Inr (ld', row')" and c: "fill_cells lr 0 row' = Inr row''" and
    n: "normalize_rows ld' (Some row'') rest = Inr out'" and out: "out = row'' # out'"
    by (rule normalize_rows_Cons)
  show ?case
  proof (cases k)
    case 0
    then show ?thesis using fix_datetime_length [OF f] fill_cells_length [OF c] out by simp
  next
    case (Suc k')
    then have "k' < length rest" using Cons.prems(2) by simp
    from Cons.IH [OF n this] show ?thesis by (simp add: out Suc)
  qed
qed

text \<open>
  The step law of the loop: outside the datetime column, and for the marker in any
  column, a normalized cell is the loop body applied to the raw cell and the previous
  normalized row.
\<close>

lemma normalize_rows_step:
  "normalize_rows ld lr data = Inr out \<Longrightarrow> k < length data \<Longrightarrow> i < length (data ! k) \<Longrightarrow>
   i \<noteq> 1 \<or> data ! k ! i = Some NA \<Longrightarrow>
   fill_cell (if k = 0 then lr else Some (out ! (k - 1))) i (data ! k ! i) = Inr (out ! k ! i)"
proof (induction data arbitrary: ld lr out k)
  case Nil
  then show ?case by simp
next
  case (Cons row rest)
  from Cons.prems(1) obtain ld' row' row'' out' where
    f: "fix_datetime ld row = Inr (ld', row')" and c: "fill_cells lr 0 row' = Inr row''" and
    n: "normalize_rows ld' (Some row'') rest = Inr out'" and out: "out = row'' # out'"
    by (rule normalize_rows_Cons)
  show ?case
  proof (cases k)
    case 0
    with Cons.prems(3) have i: "i < length row'" using fix_datetime_length [OF f] by simp
    have "row' ! i = row ! i"
    proof (cases "i = 1")
      case True
      with Cons.prems(4) 0 have "row ! i = Some NA" by simp
      with fix_datetime_marker [OF f, of i] show ?thesis by simp
    next
      case False
      then show ?thesis by (rule fix_datetime_other [OF f])
    qed
    with fill_cells_nth [OF c i] show ?thesis by (simp add: 0 out)
  next
    case (Suc k')
    then have k': "k' < length rest" and i': "i < length (rest ! k')"
      and h: "i \<noteq> 1 \<or> rest ! k' ! i = Some NA"
      using Cons.prems by simp_all
    from Cons.IH [OF n k' i' h] show ?thesis
      by (cases k') (simp_all add: out Suc)
  qed
qed

lemma fill_cell_no_marker:
  assumes "fill_cell lr i c = Inr v" and "\<forall>l. lr = Some l \<longrightarrow> Some NA \<notin> set l"
  shows "v \<noteq> Some NA"
proof (cases "c = Some NA")
  case True
  with assms(1) show ?thesis by (simp add: fill_cell_def)
next
  case na: False
  show ?thesis
  proof (cases "falsy c")
    case False
    with na assms(1) show ?thesis by (simp add: fill_cell_def)
  next
    case True
    show ?thesis
    proof (cases lr)
      case None
      with na True assms(1) show ?thesis by (simp add: fill_cell_def)
    next
      case (Some l)
      with assms(2) have l: "Some NA \<notin> set l" by simp
      show ?thesis
      proof (cases "l = []")
        case True
        with Some na \<open>falsy c\<close> assms(1) show ?thesis by (simp add: fill_cell_def)
      next
        case False
        with Some na \<open>falsy c\<close> assms(1) have "i < length l" and "v = l ! i"
          by (auto simp: fill_cell_def split: if_splits)
        then have "v \<in> set l" by simp
        with l show ?thesis by auto
      qed
    qed
  qed
qed

lemma fill_cells_no_marker:
  "fill_cells lr i row = Inr out \<Longrightarrow> \<forall>l. lr = Some l \<longrightarrow> Some NA \<notin> set l \<Longrightarrow> Some NA \<notin> set out"
proof (induction row arbitrary: i out)
  case Nil
  then show ?case by simp
next
  case (Cons c cs)
  from Cons.prems(1) obtain v r where v: "fill_cell lr i c = Inr v"
    and r: "fill_cells lr (Suc i) cs = Inr r" and out: "out = v # r"
    by (auto split: sum.splits)
  from fill_cell_no_marker [OF v Cons.prems(2)] Cons.IH [OF r Cons.prems(2)] out
  show ?case by auto
qed

lemma normalize_rows_no_marker:
  "normalize_rows ld lr data = Inr out \<Longrightarrow> \<forall>l. lr = Some l \<longrightarrow> Some NA \<notin> set l \<Longrightarrow>
   row \<in> set out \<Longrightarrow> Some NA \<notin> set row"
proof (induction data arbitrary: ld lr out)
  case Nil
  then show ?case by simp
next
  case (Cons r rest)
  from Cons.prems(1) obtain ld' row' row'' out' where
    f: "fix_datetime ld r = Inr (ld', row')" and c: "fill_cells lr 0 row' = Inr row''" and
    n: "normalize_rows ld' (Some row'') rest = Inr out'" and out: "out = row'' # out'"
    by (rule normalize_rows_Cons)
  have m: "Some NA \<notin> set row''" by (rule fill_cells_no_marker [OF c Cons.prems(2)])
  show ?case
  proof (cases "row = row''")
    case True
    with m show ?thesis by simp
  next
    case False
    with Cons.prems(3) out have "row \<in> set out'" by simp
    moreover have "\<forall>l. Some row'' = Some l \<longrightarrow> Some NA \<notin> set l" using m by simp
    ultimately show ?thesis using Cons.IH [OF n] by blast
  qed
qed

text \<open>The step law of the whole normalizer: the first row, and the rows after it.\<close>

lemma normalizer_first_row:
  assumes "add_missing_dates_and_empty_cells data = Inr out"
    and "0 < length data" and "i < length (data ! 0)" and "i \<noteq> 1 \<or> data ! 0 ! i = Some NA"
  shows "out ! 0 ! i = (if falsy (data ! 0 ! i) \<or> data ! 0 ! i = Some NA then None else data ! 0 ! i)"
proof -
  from assms(2) obtain r rs where d: "data = r # rs" by (cases data) auto
  with assms(1) have n: "normalize_rows None None (fill_first r # rs) = Inr out"
    by (simp add: add_missing_dates_and_empty_cells_def)
  have i: "i < length ((fill_first r # rs) ! 0)" using assms(3) d by (simp add: fill_first_def)
  have c: "(fill_first r # rs) ! 0 ! i = (if falsy (r ! i) then Some NA else r ! i)"
    using assms(3) d by (simp add: fill_first_def)
  have "i \<noteq> 1 \<or> (fill_first r # rs) ! 0 ! i = Some NA"
    using assms(4) d c by auto
  from normalize_rows_step [OF n _ i this]
  have "fill_cell None i (if falsy (r ! i) then Some NA else r ! i) = Inr (out ! 0 ! i)"
    using c by simp
  then show ?thesis using d by (auto simp: fill_cell_def split: if_splits)
qed

lemma normalizer_later_row:
  assumes "add_missing_dates_and_empty_cells data = Inr out"
    and "Suc k < length data" and "i < length (data ! Suc k)"
    and "i \<noteq> 1 \<or> data ! Suc k ! i = Some NA"
  shows "out ! Suc k ! i =
           (if data ! Suc k ! i = Some NA then None
            else if falsy (data ! Suc k ! i) then out ! k ! i
            else data ! Suc k ! i)"
proof -
  from assms(2) obtain r rs where d: "data = r # rs" by (cases data) auto
  with assms(1) have n: "normalize_rows None None (fill_first r # rs) = Inr out"
    by (simp add: add_missing_dates_and_empty_cells_def)
  have k: "Suc k < length (fill_first r # rs)" using assms(2) d by simp
  have k0: "k < length (fill_first r # rs)" using k by simp
  have i: "i < length ((fill_first r # rs) ! Suc k)" using assms(3) d by simp
  have h: "i \<noteq> 1 \<or> (fill_first r # rs) ! Suc k ! i = Some NA" using assms(4) d by simp
  from normalize_rows_step [OF n k i h]
  have s: "fill_cell (Some (out ! k)) i (data ! Suc k ! i) = Inr (out ! Suc k ! i)"
    using d by simp
  from normalize_rows_row_length [OF n k0] have "out ! k \<noteq> []" by auto
  with s show ?thesis by (auto simp: fill_cell_def split: if_splits)
qed

lemma normalizer_chain:
  assumes "add_missing_dates_and_empty_cells data = Inr out"
    and "k + n < length data" and "i \<noteq> 1"
    and "\<forall>j. 1 \<le> j \<and> j \<le> n \<longrightarrow> i < length (data ! (k + j)) \<and> falsy (data ! (k + j) ! i)"
  shows "j \<le> n \<Longrightarrow> out ! (k + j) ! i = out ! k ! i"
proof (induction j)
  case 0
  show ?case by simp
next
  case (Suc j)
  from Suc.prems assms(4) have i: "i < length (data ! Suc (k + j))"
    and f: "falsy (data ! Suc (k + j) ! i)" by auto
  from f have na: "data ! Suc (k + j) ! i \<noteq> Some NA" using NA_not_falsy by auto
  have "Suc (k + j) < length data" using Suc.prems assms(2) by simp
  from normalizer_later_row [OF assms(1) this i] assms(3) f na
  have "out ! Suc (k + j) ! i = out ! (k + j) ! i" by simp
  with Suc show ?case by simp
qed

lemma normalizer_explicit:
  assumes "add_missing_dates_and_empty_cells data = Inr out"
    and "k < length data" and "i < length (data ! k)" and "i \<noteq> 1 \<or> v = NA"
    and "data ! k ! i = Some v" and "v \<noteq> []"
  shows "out ! k ! i = (if v = NA then None else Some v)"
proof (cases k)
  case 0
  have "i \<noteq> 1 \<or> data ! 0 ! i = Some NA" using assms(4,5) 0 by auto
  from normalizer_first_row [OF assms(1) _ _ this] assms 0 show ?thesis
    by (auto simp: falsy_def)
next
  case (Suc k')
  have "i \<noteq> 1 \<or> data ! Suc k' ! i = Some NA" using assms(4,5) Suc by auto
  from normalizer_later_row [OF assms(1) _ _ this] assms Suc show ?thesis
    by (auto simp: falsy_def)
qed

text \<open>
  Claim C1, as the code has it. Where normalization completes: a cell equal to the marker
  \<open>N / A\<close> is normalized to \<^verbatim>\<open>None\<close>, in every column; the marker text occurs in no
  normalized row; and in every column other than the datetime column (index 1), the
  value of a non-empty cell is carried through the consecutive empty cells below it,
  that value being \<^verbatim>\<open>None\<close> when the cell holds the marker (so the value before a marker
  is never carried past it) and the text of the cell otherwise.
\<close>

theorem carry_forward:
  assumes "add_missing_dates_and_empty_cells data = Inr out"
  shows "(\<forall>k i. k < length data \<and> i < length (data ! k) \<and> data ! k ! i = Some NA
            \<longrightarrow> out ! k ! i = None)
       \<and> (\<forall>k. k < length out \<longrightarrow> Some NA \<notin> set (out ! k))
       \<and> (\<forall>k n i v. k + n < length data \<and> i \<noteq> 1 \<and> i < length (data ! k)
            \<and> data ! k ! i = Some v \<and> v \<noteq> []
            \<and> (\<forall>j. 1 \<le> j \<and> j \<le> n \<longrightarrow> i < length (data ! (k + j)) \<and> falsy (data ! (k + j) ! i))
            \<longrightarrow> (\<forall>j\<le>n. out ! (k + j) ! i = (if v = NA then None else Some v)))"
proof (intro conjI allI impI)
  fix k i
  assume a: "k < length data \<and> i < length (data ! k) \<and> data ! k ! i = Some NA"
  have "NA \<noteq> []" by (simp add: NA_def)
  with normalizer_explicit [OF assms, of k i NA] a show "out ! k ! i = None" by simp
next
  fix k
  assume "k < length out"
  then have "out ! k \<in> set out" by simp
  moreover have "normalize_rows None None (case data of [] \<Rightarrow> [] | r # rs \<Rightarrow> fill_first r # rs) = Inr out"
    using assms by (simp add: add_missing_dates_and_empty_cells_def)
  ultimately show "Some NA \<notin> set (out ! k)"
    using normalize_rows_no_marker by blast
next
  fix k n i v j
  assume a: "k + n < length data \<and> i \<noteq> 1 \<and> i < length (data ! k)
            \<and> data ! k ! i = Some v \<and> v \<noteq> []
            \<and> (\<forall>j. 1 \<le> j \<and> j \<le> n \<longrightarrow> i < length (data ! (k + j)) \<and> falsy (data ! (k + j) ! i))"
    and j: "j \<le> n"
  from a have "out ! (k + j) ! i = out ! k ! i"
    using normalizer_chain [OF assms, of k n i j] j by blast
  moreover from a have "out ! k ! i = (if v = NA then None else Some v)"
    using normalizer_explicit [OF assms, of k i v] by simp
  ultimately show "out ! (k + j) ! i = (if v = NA then None else Some v)" by simp
qed

theorem carry_forward_witness:
  "add_missing_dates_and_empty_cells
     [[Some ''a'', Some ''2020-01-01 00:00:00'', Some ''5''],
      [Some ''b'', Some ''06:00:00'', Some ''''],
      [Some ''c'', Some ''12:00:00'', Some ''N / A''],
      [Some ''d'', Some ''18:00:00'', Some ''7'']]
   = Inr [[Some ''a'', Some ''2020-01-01 00:00:00'', Some ''5''],
      [Some ''b'', Some ''2020-01-01 06:00:00'', Some ''5''],
      [Some ''c'', Some ''2020-01-01 12:00:00'', None],
      [Some ''d'', Some ''2020-01-01 18:00:00'', Some ''7'']]
   \<and> [[Some ''a'', Some ''2020-01-01 00:00:00'', Some ''5''],
      [Some ''b'', Some ''2020-01-01 06:00:00'', Some ''5''],
      [Some ''c'', Some ''2020-01-01 12:00:00'', None],
      [Some ''d'', Some ''2020-01-01 18:00:00'', Some ''7'']] ! (0 + 1) ! 2 = Some ''5''"
proof -
  let ?D = "[[Some ''a'', Some ''2020-01-01 00:00:00'', Some ''5''],
      [Some ''b'', Some ''06:00:00'', Some ''''],
      [Some ''c'', Some ''12:00:00'', Some ''N / A''],
      [Some ''d'', Some ''18:00:00'', Some ''7'']]"
  let ?O = "[[Some ''a'', Some ''2020-01-01 00:00:00'', Some ''5''],
      [Some ''b'', Some ''2020-01-01 06:00:00'', Some ''5''],
      [Some ''c'', Some ''2020-01-01 12:00:00'', None],
      [Some ''d'', Some ''2020-01-01 18:00:00'', Some ''7'']]"
  have e: "add_missing_dates_and_empty_cells ?D = Inr ?O" by code_simp
  have h: "0 + 1 < length ?D \<and> (2::nat) \<noteq> 1 \<and> 2 < length (?D ! 0)
            \<and> ?D ! 0 ! 2 = Some ''5'' \<and> ''5'' \<noteq> []
            \<and> (\<forall>j. 1 \<le> j \<and> j \<le> 1 \<longrightarrow> 2 < length (?D ! (0 + j)) \<and> falsy (?D ! (0 + j) ! 2))"
    by (auto simp: falsy_def le_Suc_eq)
  from carry_forward [OF e] have
    "\<forall>k n i v. k + n < length ?D \<and> i \<noteq> 1 \<and> i < length (?D ! k)
            \<and> ?D ! k ! i = Some v \<and> v \<noteq> []
            \<and> (\<forall>j. 1 \<le> j \<and> j \<le> n \<longrightarrow> i < length (?D ! (k + j)) \<and> falsy (?D ! (k + j) ! i))
            \<longrightarrow> (\<forall>j\<le>n. ?O ! (k + j) ! i = (if v = NA then None else Some v))"
    by blast
  then have "\<forall>j\<le>1. ?O ! (0 + j) ! 2 = (if ''5'' = NA then None else Some ''5'')"
    using h by blast
  then have "?O ! (0 + 1) ! 2 = (if ''5'' = NA then None else Some ''5'')" by blast
  then have "?O ! (0 + 1) ! 2 = Some ''5''" by (simp add: NA_def)
  with e show ?thesis by blast
qed

theorem carry_forward_counterexample:
  "add_missing_dates_and_empty_cells
     [[Some ''a'', Some ''2020-01-01 00:00:00''], [Some ''b'', Some '''']]
   = Inr [[Some ''a'', Some ''2020-01-01 00:00:00''], [Some ''b'', Some ''2020-01-01 '']]"
  by code_simp








section \<open>Properties of the track record builder\<close>

lemma convert_row_Some:
  assumes "convert_row flt month row = Inr (Some p)"
  obtains time lat long speed pressure speed' k lat' long' where
    "2 \<le> length row" and "convert_time month (row ! 1) = Some time"
    and "column row 3 = Inr lat" and "column row 4 = Inr long"
    and "column row 5 = Inr speed" and "column row 6 = Inr pressure"
    and "classify_speed speed = Inr (speed', k)"
    and "float_cell flt lat = Inr lat'" and "float_cell flt long = Inr long'"
    and "p = \<lparr>tp_time = time, tp_lat = lat', tp_long = long', tp_speed = render_speed speed',
               tp_pressure = render_pressure pressure, tp_class = k\<rparr>"
proof -
  from assms have len: "2 \<le> length row"
    by (cases "length row < 2") (simp_all add: convert_row_def)
  from assms len obtain time where t: "convert_time month (row ! 1) = Some time"
    by (cases "convert_time month (row ! 1)") (simp_all add: convert_row_def)
  from assms len t obtain lat where c3: "column row 3 = Inr lat"
    by (cases "column row 3") (simp_all add: convert_row_def)
  from assms len t c3 obtain long where c4: "column row 4 = Inr long"
    by (cases "column row 4") (simp_all add: convert_row_def)
  from assms len t c3 c4 obtain speed where c5: "column row 5 = Inr speed"
    by (cases "column row 5") (simp_all add: convert_row_def)
  from assms len t c3 c4 c5 obtain pressure where c6: "column row 6 = Inr pressure"
    by (cases "column row 6") (simp_all add: convert_row_def)
  from assms len t c3 c4 c5 c6 obtain speed' k where cl: "classify_speed speed = Inr (speed', k)"
    by (cases "classify_speed speed") (auto simp: convert_row_def)
  from assms len t c3 c4 c5 c6 cl obtain lat' where f1: "float_cell flt lat = Inr lat'"
    by (cases "float_cell flt lat") (simp_all add: convert_row_def)
  from assms len t c3 c4 c5 c6 cl f1 obtain long' where f2: "float_cell flt long = Inr long'"
    by (cases "float_cell flt long") (simp_all add: convert_row_def)
  from assms len t c3 c4 c5 c6 cl f1 f2
  have "p = \<lparr>tp_time = time, tp_lat = lat', tp_long = long', tp_speed = render_speed speed',
               tp_pressure = render_pressure pressure, tp_class = k\<rparr>"
    by (simp add: convert_row_def)
  with len t c3 c4 c5 c6 cl f1 f2 that show ?thesis by blast
qed

lemma column_Inr:
  "column row i = Inr c \<Longrightarrow> i < length row \<and> c = (if row ! i = Some NA then None else row ! i)"
  by (auto simp: column_def split: if_splits)

lemma typhoon_class_of_band: "\<exists>k. typhoon_class_of n = Some k \<and> spec_band n k"
  by (simp add: typhoon_class_of_def spec_band_def)



lemma classify_speed_Inr:
  assumes "classify_speed c = Inr (speed', k)"
  shows "(c = None \<or> c = Some [] \<longrightarrow> speed' = None \<and> k = 0)
       \<and> (\<forall>s. c = Some s \<and> s \<noteq> [] \<longrightarrow> (\<exists>n. py_int s = Some n \<and> speed' = Some n \<and> spec_band n k))"
proof (cases c)
  case None
  with assms show ?thesis by (simp add: classify_speed_def)
next
  case (Some s)
  show ?thesis
  proof (cases "s = []")
    case True
    with Some assms show ?thesis by (simp add: classify_speed_def)
  next
    case False
    with Some assms obtain n where n: "py_int s = Some n"
      by (cases "py_int s") (simp_all add: classify_speed_def)
    from typhoon_class_of_band [of n] obtain k' where k': "typhoon_class_of n = Some k'" "spec_band n k'"
      by blast
    have "speed' = Some n \<and> k = k'"
      using Some False n k'(1) assms by (simp add: classify_speed_def)
    with n k'(2) Some False show ?thesis by simp
  qed
qed





lemma render_of_row:
  assumes "convert_row flt month row = Inr (Some p)"
  shows "(\<forall>s n. row ! 5 = Some s \<and> s \<noteq> [] \<and> s \<noteq> NA \<and> py_int s = Some n
            \<longrightarrow> tp_speed p = (if n \<noteq> 0 then py_str n else ''< 35''))
       \<and> (row ! 5 = None \<or> row ! 5 = Some [] \<or> row ! 5 = Some NA \<longrightarrow> tp_speed p = ''< 35'')
       \<and> (\<forall>s. row ! 6 = Some s \<and> s \<noteq> [] \<and> s \<noteq> NA \<longrightarrow> tp_pressure p = s)
       \<and> (row ! 6 = None \<or> row ! 6 = Some [] \<or> row ! 6 = Some NA \<longrightarrow> tp_pressure p = ''> 1008'')"
proof -
  from assms obtain speed pressure speed' k where c5: "column row 5 = Inr speed"
    and c6: "column row 6 = Inr pressure"
    and cl: "classify_speed speed = Inr (speed', k)"
    and sp: "tp_speed p = render_speed speed'" and pr: "tp_pressure p = render_pressure pressure"
    by (rule convert_row_Some) simp
  from column_Inr [OF c5] have s5: "speed = (if row ! 5 = Some NA then None else row ! 5)" by simp
  from column_Inr [OF c6] have s6: "pressure = (if row ! 6 = Some NA then None else row ! 6)" by simp
  note cs = classify_speed_Inr [OF cl]
  have na: "NA \<noteq> []" by (simp add: NA_def)
  have a: "\<forall>s n. row ! 5 = Some s \<and> s \<noteq> [] \<and> s \<noteq> NA \<and> py_int s = Some n
            \<longrightarrow> tp_speed p = (if n \<noteq> 0 then py_str n else ''< 35'')"
    using cs s5 sp by (auto simp: render_speed_def)
  have b: "row ! 5 = None \<or> row ! 5 = Some [] \<or> row ! 5 = Some NA \<longrightarrow> tp_speed p = ''< 35''"
    using cs s5 sp na by (auto simp: render_speed_def)
  have c: "\<forall>s. row ! 6 = Some s \<and> s \<noteq> [] \<and> s \<noteq> NA \<longrightarrow> tp_pressure p = s"
    using s6 pr by (auto simp: render_pressure_def)
  have d: "row ! 6 = None \<or> row ! 6 = Some [] \<or> row ! 6 = Some NA \<longrightarrow> tp_pressure p = ''> 1008''"
    using s6 pr by (auto simp: render_pressure_def)
  from a b c d show ?thesis by blast
qed

text \<open>
  Claim C8 fails on the code at a wind speed of zero. Line 153 tests the text of the
  cell, so \<open>0\<close> is a present speed and gets its class from \<^verbatim>\<open>int\<close>; line 173 tests the
  integer, which is falsy, and stores the text of an absent speed.
\<close>

theorem zero_speed_stored_as_absent:
  "convert_row (\<lambda>s. Some s) None
     [Some ''1'', Some ''2020-06-01 00:00:00'', Some ''TD'', Some ''10.5'', Some ''120.0'', Some ''0'', Some ''1005'']
   = Inr (Some \<lparr>tp_time = Some ''2020-06-01 00:00'', tp_lat = Some ''10.5'', tp_long = Some ''120.0'',
                 tp_speed = ''< 35'', tp_pressure = ''1005'', tp_class = 0\<rparr>)"
  by code_simp

lemma convert_time_unparsed:
  "c = None \<or> (\<exists>s. c = Some s \<and> strptime s = None) \<Longrightarrow> convert_time month c = Some c"
  by (auto simp: convert_time_def)

lemma convert_row_None:
  "convert_row flt month row = Inr None \<Longrightarrow> 2 \<le> length row \<and> convert_time month (row ! 1) = None"
  by (auto simp: convert_row_def split: if_splits option.splits sum.splits prod.splits)

lemma build_path_member:
  "build_path flt month rows = Inr ps \<Longrightarrow> k < length rows \<Longrightarrow>
   convert_row flt month (rows ! k) = Inr None
   \<or> (\<exists>p\<in>set ps. convert_row flt month (rows ! k) = Inr (Some p))"
proof (induction rows arbitrary: ps k)
  case Nil
  then show ?case by simp
next
  case (Cons row rows)
  show ?case
  proof (cases "convert_row flt month row")
    case (Inl e)
    with Cons.prems(1) show ?thesis by simp
  next
    case (Inr r)
    show ?thesis
    proof (cases r)
      case None
      with Inr Cons.prems(1) have b: "build_path flt month rows = Inr ps" by simp
      show ?thesis
      proof (cases k)
        case 0
        with Inr None show ?thesis by simp
      next
        case (Suc k')
        with Cons.prems(2) have "k' < length rows" by simp
        from Cons.IH [OF b this] Suc show ?thesis by simp
      qed
    next
      case (Some p)
      with Inr Cons.prems(1) obtain ps' where b: "build_path flt month rows = Inr ps'"
        and ps: "ps = p # ps'"
        by (cases "build_path flt month rows") auto
      show ?thesis
      proof (cases k)
        case 0
        with Inr Some ps show ?thesis by simp
      next
        case (Suc k')
        with Cons.prems(2) have "k' < length rows" by simp
        from Cons.IH [OF b this] Suc ps show ?thesis by auto
      qed
    qed
  qed
qed

text \<open>
  Claim C10. A row whose datetime cell is \<^verbatim>\<open>None\<close>, or a text that \<^verbatim>\<open>strptime\<close> rejects,
  is never skipped by the month filter, whatever the filter is: where the path is built,
  the track point of the row is in it, with the cell unchanged as its time.
\<close>

theorem unparsed_row_kept:
  assumes "build_path flt month rows = Inr ps" and "k < length rows"
    and "rows ! k ! 1 = None \<or> (\<exists>s. rows ! k ! 1 = Some s \<and> strptime s = None)"
  shows "convert_row flt month (rows ! k) \<noteq> Inr None
       \<and> (\<exists>p\<in>set ps. convert_row flt month (rows ! k) = Inr (Some p) \<and> tp_time p = rows ! k ! 1)"
proof -
  from convert_time_unparsed [OF assms(3)]
  have t: "convert_time month (rows ! k ! 1) = Some (rows ! k ! 1)" .
  then have n: "convert_row flt month (rows ! k) \<noteq> Inr None"
    using convert_row_None [of flt month "rows ! k"] by auto
  with build_path_member [OF assms(1,2)] obtain p where p: "p \<in> set ps"
    and c: "convert_row flt month (rows ! k) = Inr (Some p)" by blast
  from c obtain time where "convert_time month (rows ! k ! 1) = Some time" "tp_time p = time"
    by (rule convert_row_Some) simp
  with t have "tp_time p = rows ! k ! 1" by simp
  with n p c show ?thesis by blast
qed

theorem unparsed_row_kept_witness:
  "build_path (\<lambda>s. Some s) (Some (PyInt 6))
     [[Some ''1'', Some ''2020-07-01 00:00:00'', Some ''TS'', None, None, Some ''40'', Some ''990''],
      [Some ''2'', Some ''2020-07-01 6h'', Some ''TS'', None, None, Some ''45'', Some ''985'']]
   = Inr [\<lparr>tp_time = Some ''2020-07-01 6h'', tp_lat = None, tp_long = None,
            tp_speed = ''45'', tp_pressure = ''985'', tp_class = 1\<rparr>]
   \<and> strptime ''2020-07-01 6h'' = None
   \<and> (\<exists>p\<in>set [\<lparr>tp_time = Some ''2020-07-01 6h'', tp_lat = None :: string option,
            tp_long = None :: string option,
            tp_speed = ''45'', tp_pressure = ''985'', tp_class = 1\<rparr>].
         tp_time p = Some ''2020-07-01 6h'')"
proof -
  let ?rows = "[[Some ''1'', Some ''2020-07-01 00:00:00'', Some ''TS'', None, None, Some ''40'', Some ''990''],
      [Some ''2'', Some ''2020-07-01 6h'', Some ''TS'', None, None, Some ''45'', Some ''985'']]"
  let ?ps = "[\<lparr>tp_time = Some ''2020-07-01 6h'', tp_lat = None :: string option, tp_long = None :: string option,
            tp_speed = ''45'', tp_pressure = ''985'', tp_class = 1\<rparr>]"
  have e: "build_path (\<lambda>s. Some s) (Some (PyInt 6)) ?rows = Inr ?ps" by code_simp
  have s: "strptime ''2020-07-01 6h'' = None" by code_simp
  have k: "(1::nat) < length ?rows" by simp
  have h: "?rows ! 1 ! 1 = None \<or> (\<exists>s. ?rows ! 1 ! 1 = Some s \<and> strptime s = None)"
    using s by simp
  from unparsed_row_kept [OF e k h]
  have "\<exists>p\<in>set ?ps. tp_time p = ?rows ! 1 ! 1" by blast
  then have "\<exists>p\<in>set ?ps. tp_time p = Some ''2020-07-01 6h''" by simp
  with e s show ?thesis by blast
qed


lemma start_time_of_null:
  assumes "2 \<le> length row" and "row ! 1 = None"
  shows "start_time_of ts (row # rest) = Inl TypeError"
  using assms by (simp add: start_time_of_def)

lemma start_time_of_take: "start_time_of ts (take 1 processed) = start_time_of ts processed"
  by (cases processed) (simp_all add: start_time_of_def)

text \<open>
  Claim C7 fails on the code when the first normalized datetime cell is \<^verbatim>\<open>None\<close>, which
  is what the normalizer makes of an empty first cell: \<^verbatim>\<open>strptime\<close> raises TypeError, line
  182 catches ValueError only, and the exception escapes instead of a null start time.
  (The loop over the rows guards the same call with \<^verbatim>\<open>if time\<close>, line 141.)
\<close>

theorem null_first_datetime_raises:
  "build_track (\<lambda>s. Some s) (\<lambda>t. 0) None ''HAIYAN''
     [[Some ''1'', Some '''', Some ''TS'', Some ''10.5'', Some ''120.0'', Some ''40'', Some ''990''],
      [Some ''2'', Some ''2020-07-01 06:00:00'', Some ''TS'', Some ''10.9'', Some ''119.5'', Some ''45'', Some ''985'']]
   = Inl TypeError"
  by code_simp

section \<open>The month filter\<close>

lemma strptime_empty: "strptime [] = None"
  by (simp add: strptime_def year4_def)

lemma py_int_empty: "py_int [] = None"
  by (simp add: py_int_def strip_def)

lemma month_truthy:
  assumes "int_arg mo = Some m" and "1 \<le> m"
  shows "truthy_arg mo"
proof (cases mo)
  case (PyInt n)
  with assms show ?thesis by (simp add: int_arg_def truthy_arg_def)
next
  case (PyStr s)
  with assms have "py_int s = Some m" by (simp add: int_arg_def)
  then have "s \<noteq> []" using py_int_empty by auto
  with PyStr show ?thesis by (simp add: truthy_arg_def)
qed

lemma convert_time_filter:
  assumes "int_arg mo = Some m" and "1 \<le> m"
  shows "convert_time (Some mo) c =
           (if (case c of None \<Rightarrow> True
                | Some s \<Rightarrow> (case strptime s of None \<Rightarrow> True | Some t \<Rightarrow> int (dt_month t) = m))
            then convert_time None c else None)"
proof (cases c)
  case None
  then show ?thesis by (simp add: convert_time_def)
next
  case (Some s)
  note tr = month_truthy [OF assms]
  show ?thesis
  proof (cases "strptime s")
    case None
    with Some show ?thesis by (simp add: convert_time_def)
  next
    case (Some t)
    then have "s \<noteq> []" using strptime_empty by auto
    with Some \<open>c = Some s\<close> tr assms(1) show ?thesis by (simp add: convert_time_def)
  qed
qed

lemma convert_row_filter:
  assumes "int_arg mo = Some m" and "1 \<le> m"
  shows "convert_row flt (Some mo) row =
           (if length row < 2
               \<or> (case row ! 1 of None \<Rightarrow> True
                   | Some s \<Rightarrow> (case strptime s of None \<Rightarrow> True | Some t \<Rightarrow> int (dt_month t) = m))
            then convert_row flt None row else Inr None)"
  by (simp add: convert_row_def convert_time_filter [OF assms])

lemma build_path_filter:
  assumes "int_arg mo = Some m" and "1 \<le> m"
  shows "build_path flt (Some mo) rows =
           build_path flt None
             (filter (\<lambda>row. length row < 2
                 \<or> (case row ! 1 of None \<Rightarrow> True
                     | Some s \<Rightarrow> (case strptime s of None \<Rightarrow> True | Some t \<Rightarrow> int (dt_month t) = m)))
                rows)"
proof (induction rows)
  case Nil
  show ?case by simp
next
  case (Cons row rows)
  show ?case
  proof (cases "length row < 2
                 \<or> (case row ! 1 of None \<Rightarrow> True
                     | Some s \<Rightarrow> (case strptime s of None \<Rightarrow> True | Some t \<Rightarrow> int (dt_month t) = m))")
    case True
    then have "convert_row flt (Some mo) row = convert_row flt None row"
      using convert_row_filter [OF assms, of flt row] by simp
    with True Cons.IH show ?thesis by (simp split: sum.splits option.splits)
  next
    case False
    then have "convert_row flt (Some mo) row = Inr None"
      using convert_row_filter [OF assms, of flt row] by simp
    with False Cons.IH show ?thesis by simp
  qed
qed

lemma build_track_Inr:
  assumes "build_track flt ts month nm data = Inr st"
  obtains processed where "add_missing_dates_and_empty_cells data = Inr processed"
    and "build_path flt month processed = Inr (path st)"
    and "start_time_of ts processed = Inr (start_time st)"
    and "name st = nm"
proof -
  from assms obtain processed where a: "add_missing_dates_and_empty_cells data = Inr processed"
    by (cases "add_missing_dates_and_empty_cells data") (simp_all add: build_track_def)
  from assms a obtain p where b: "build_path flt month processed = Inr p"
    by (cases "build_path flt month processed") (simp_all add: build_track_def)
  from assms a b obtain s where c: "start_time_of ts processed = Inr s"
    by (cases "start_time_of ts processed") (simp_all add: build_track_def)
  from assms a b c have "st = \<lparr>name = nm, path = p, start_time = s\<rparr>"
    by (simp add: build_track_def)
  with a b c that show ?thesis by simp
qed

lemma process_links_member:
  "process_links E month links = Inr all_data \<Longrightarrow> link \<in> set links \<Longrightarrow>
   process_link E month link = Inr (Some st) \<Longrightarrow> st \<in> set all_data"
proof (induction links arbitrary: all_data)
  case Nil
  then show ?case by simp
next
  case (Cons l links)
  show ?case
  proof (cases "process_link E month l")
    case (Inl e)
    with Cons.prems(1) show ?thesis by simp
  next
    case (Inr r)
    show ?thesis
    proof (cases r)
      case None
      with Inr Cons.prems have "link \<in> set links" by auto
      moreover from None Inr Cons.prems(1) have "process_links E month links = Inr all_data" by simp
      ultimately show ?thesis using Cons.IH Cons.prems(3) by blast
    next
      case (Some s)
      with Inr Cons.prems(1) obtain rest where r: "process_links E month links = Inr rest"
        and a: "all_data = s # rest"
        by (cases "process_links E month links") auto
      show ?thesis
      proof (cases "link = l")
        case True
        with Inr Some Cons.prems(3) a show ?thesis by simp
      next
        case False
        with Cons.prems(2) have "link \<in> set links" by simp
        from Cons.IH [OF r this Cons.prems(3)] a show ?thesis by simp
      qed
    qed
  qed
qed

lemma save_data_as_json_Some:
  assumes "save_data_as_json E year basin_name month folder_path fs = Inr (Some all_data, fs')"
  obtains page links_by_basin links where "fetch_year_page E year = Inr page"
    and "extract_links_from_second_table E page = Inr (Some links_by_basin)"
    and "map_of links_by_basin basin_name = Some links"
    and "process_links E month links = Inr all_data"
    and "fs' = save_cache (json_dump E) all_data year basin_name folder_path fs"
proof -
  from assms obtain page where a: "fetch_year_page E year = Inr page"
    by (cases "fetch_year_page E year") (simp_all add: save_data_as_json_def)
  from assms a obtain r where b: "extract_links_from_second_table E page = Inr r"
    by (cases "extract_links_from_second_table E page") (simp_all add: save_data_as_json_def)
  from assms a b obtain lb where c: "r = Some lb" and ne: "lb \<noteq> []"
    by (cases r; cases "the r = []") (simp_all add: save_data_as_json_def)
  from assms a b c ne obtain links where d: "map_of lb basin_name = Some links"
    by (cases "map_of lb basin_name") (simp_all add: save_data_as_json_def)
  from assms a b c ne d obtain al where e: "process_links E month links = Inr al"
    by (cases "process_links E month links") (simp_all add: save_data_as_json_def)
  from assms a b c ne d e have "all_data = al"
    and "fs' = save_cache (json_dump E) al year basin_name folder_path fs"
    by (auto simp: save_data_as_json_def)
  with a b c d e that show ?thesis by blast
qed

lemma process_link_Some:
  assumes "get_typhoon_name_from_link E link = Inr (Some nm)" and "nm \<noteq> []"
    and "scrape_fourth_table E link = Inr (Some tbl)" and "tbl \<noteq> []"
    and "build_track (to_float E) (timestamp E) month (working_name nm) (map (map Some) tbl) = Inr st"
  shows "process_link E month link = Inr (Some st)"
  using assms by (simp add: process_link_def)

text \<open>
  Claim C4. With a month filter that denotes a month \<open>m\<close> from 1 to 12: the path is the
  path, built without a filter, of the table from which every row whose datetime cell
  parses to another month has been removed; the start time of the track is the start
  time of the first row of the whole normalized table; and every storm that has a
  heading and a track table is in the dataset that \<^verbatim>\<open>save_data_as_json\<close> returns,
  whatever is left of its path.
\<close>

theorem month_filter:
  assumes "int_arg mo = Some m" and "1 \<le> m" and "m \<le> 12"
  shows "build_path (to_float E) (Some mo) rows =
           build_path (to_float E) None
             (filter (\<lambda>row. length row < 2
                 \<or> (case row ! 1 of None \<Rightarrow> True
                     | Some s \<Rightarrow> (case strptime s of None \<Rightarrow> True | Some t \<Rightarrow> int (dt_month t) = m)))
                rows)
       \<and> (\<forall>nm data st. build_track (to_float E) (timestamp E) (Some mo) nm data = Inr st
            \<longrightarrow> (\<exists>processed. add_missing_dates_and_empty_cells data = Inr processed
                   \<and> start_time_of (timestamp E) (take 1 processed) = Inr (start_time st)))
       \<and> (\<forall>year basin_name folder_path fs fs' all_data page links_by_basin links link nm tbl st.
            save_data_as_json E year basin_name (Some mo) folder_path fs = Inr (Some all_data, fs')
            \<and> fetch_year_page E year = Inr page
            \<and> extract_links_from_second_table E page = Inr (Some links_by_basin)
            \<and> map_of links_by_basin basin_name = Some links \<and> link \<in> set links
            \<and> get_typhoon_name_from_link E link = Inr (Some nm) \<and> nm \<noteq> []
            \<and> scrape_fourth_table E link = Inr (Some tbl) \<and> tbl \<noteq> []
            \<and> build_track (to_float E) (timestamp E) (Some mo) (working_name nm)
                 (map (map Some) tbl) = Inr st
            \<longrightarrow> st \<in> set all_data)"
proof (intro conjI allI impI)
  show "build_path (to_float E) (Some mo) rows =
           build_path (to_float E) None
             (filter (\<lambda>row. length row < 2
                 \<or> (case row ! 1 of None \<Rightarrow> True
                     | Some s \<Rightarrow> (case strptime s of None \<Rightarrow> True | Some t \<Rightarrow> int (dt_month t) = m)))
                rows)"
    by (rule build_path_filter [OF assms(1,2)])
next
  fix nm data st
  assume "build_track (to_float E) (timestamp E) (Some mo) nm data = Inr st"
  then obtain processed where "add_missing_dates_and_empty_cells data = Inr processed"
    and "start_time_of (timestamp E) processed = Inr (start_time st)"
    by (rule build_track_Inr)
  then show "\<exists>processed. add_missing_dates_and_empty_cells data = Inr processed
                   \<and> start_time_of (timestamp E) (take 1 processed) = Inr (start_time st)"
    using start_time_of_take [of "timestamp E" processed] by auto
next
  fix year basin_name folder_path fs fs' all_data page links_by_basin links link nm tbl st
  assume a: "save_data_as_json E year basin_name (Some mo) folder_path fs = Inr (Some all_data, fs')
            \<and> fetch_year_page E year = Inr page
            \<and> extract_links_from_second_table E page = Inr (Some links_by_basin)
            \<and> map_of links_by_basin basin_name = Some links \<and> link \<in> set links
            \<and> get_typhoon_name_from_link E link = Inr (Some nm) \<and> nm \<noteq> []
            \<and> scrape_fourth_table E link = Inr (Some tbl) \<and> tbl \<noteq> []
            \<and> build_track (to_float E) (timestamp E) (Some mo) (working_name nm)
                 (map (map Some) tbl) = Inr st"
  then have s: "save_data_as_json E year basin_name (Some mo) folder_path fs = Inr (Some all_data, fs')"
    by simp
  from s obtain page' lb' links' where "fetch_year_page E year = Inr page'"
    and "extract_links_from_second_table E page' = Inr (Some lb')"
    and "map_of lb' basin_name = Some links'"
    and pl: "process_links E (Some mo) links' = Inr all_data"
    by (rule save_data_as_json_Some)
  with a have "links' = links" by simp
  with pl have pl': "process_links E (Some mo) links = Inr all_data" by simp
  from a have "process_link E (Some mo) link = Inr (Some st)"
    using process_link_Some by blast
  with pl' a show "st \<in> set all_data" using process_links_member by blast
qed

theorem month_filter_witness:
  "int_arg (PyStr ''6'') = Some 6
   \<and> build_path (\<lambda>s. Some s) (Some (PyStr ''6''))
       [[Some ''1'', Some ''2020-05-31 18:00:00'', Some ''TS'', Some ''10.5'', Some ''120.0'', Some ''40'', Some ''990''],
        [Some ''2'', Some ''2020-06-01 00:00:00'', Some ''TS'', Some ''10.9'', Some ''119.5'', Some ''45'', Some ''985'']]
     = build_path (\<lambda>s. Some s) None
       [[Some ''2'', Some ''2020-06-01 00:00:00'', Some ''TS'', Some ''10.9'', Some ''119.5'', Some ''45'', Some ''985'']]
   \<and> save_data_as_json
        \<lparr>fetch_year_page = (\<lambda>y. Inr (Some ''page'')),
         extract_links_from_second_table = (\<lambda>p. Inr (Some [(''Western Pacific'', [''link''])])),
         get_typhoon_name_from_link = (\<lambda>l. Inr (Some ''Typhoon HAIYAN 2020'')),
         scrape_fourth_table = (\<lambda>l. Inr (Some [[''1'', ''2020-05-31 18:00:00'', ''TS'', ''10.5'', ''120.0'', ''40'', ''990'']])),
         to_float = (\<lambda>s. Some s), timestamp = (\<lambda>t. 0),
         json_dump = (\<lambda>d. ''[]''), json_load = (\<lambda>s. None)\<rparr>
        ''2020'' ''Western Pacific'' (Some (PyStr ''6'')) ''data'' Map.empty
     = Inr (Some [\<lparr>name = ''HAIYAN'', path = [], start_time = Epoch 0\<rparr>],
            [''data/wp_2020_data.json'' \<mapsto> ''[]''])
   \<and> \<lparr>name = ''HAIYAN'', path = [], start_time = Epoch 0\<rparr>
       \<in> set [\<lparr>name = ''HAIYAN'', path = [] :: string trackpoint list, start_time = Epoch 0\<rparr>]"
proof -
  let ?E = "\<lparr>fetch_year_page = (\<lambda>y. Inr (Some ''page'')),
             extract_links_from_second_table = (\<lambda>p. Inr (Some [(''Western Pacific'', [''link''])])),
             get_typhoon_name_from_link = (\<lambda>l. Inr (Some ''Typhoon HAIYAN 2020'')),
             scrape_fourth_table = (\<lambda>l. Inr (Some [[''1'', ''2020-05-31 18:00:00'', ''TS'', ''10.5'', ''120.0'', ''40'', ''990'']])),
             to_float = (\<lambda>s. Some s), timestamp = (\<lambda>t. 0),
             json_dump = (\<lambda>d. ''[]''), json_load = (\<lambda>s. None)\<rparr>"
  let ?rows = "[[Some ''1'', Some ''2020-05-31 18:00:00'', Some ''TS'', Some ''10.5'', Some ''120.0'', Some ''40'', Some ''990''],
        [Some ''2'', Some ''2020-06-01 00:00:00'', Some ''TS'', Some ''10.9'', Some ''119.5'', Some ''45'', Some ''985'']]"
  let ?st = "\<lparr>name = ''HAIYAN'', path = [] :: string trackpoint list, start_time = Epoch 0\<rparr>"
  let ?tbl = "[[''1'', ''2020-05-31 18:00:00'', ''TS'', ''10.5'', ''120.0'', ''40'', ''990'']]"
  have i: "int_arg (PyStr ''6'') = Some 6" by code_simp
  have f: "filter (\<lambda>row. length row < 2
                 \<or> (case row ! 1 of None \<Rightarrow> True
                     | Some s \<Rightarrow> (case strptime s of None \<Rightarrow> True | Some t \<Rightarrow> int (dt_month t) = 6)))
                ?rows = [?rows ! 1]"
    by code_simp
  note mf = month_filter [OF i, where E = "?E" and rows = ?rows]
  from mf have "build_path (\<lambda>s. Some s) (Some (PyStr ''6'')) ?rows =
           build_path (\<lambda>s. Some s) None
             (filter (\<lambda>row. length row < 2
                 \<or> (case row ! 1 of None \<Rightarrow> True
                     | Some s \<Rightarrow> (case strptime s of None \<Rightarrow> True | Some t \<Rightarrow> int (dt_month t) = 6)))
                ?rows)"
    by simp
  with f have a: "build_path (\<lambda>s. Some s) (Some (PyStr ''6'')) ?rows
                  = build_path (\<lambda>s. Some s) None [?rows ! 1]" by simp
  have w: "working_name ''Typhoon HAIYAN 2020'' = ''HAIYAN''" by code_simp
  have bt: "build_track (\<lambda>s. Some s) (\<lambda>t. 0) (Some (PyStr ''6'')) ''HAIYAN'' (map (map Some) ?tbl)
            = Inr ?st" by code_simp
  have c: "cache_file ''2020'' ''Western Pacific'' ''data'' = ''data/wp_2020_data.json''"
    by code_simp
  have sd: "save_data_as_json ?E ''2020'' ''Western Pacific'' (Some (PyStr ''6'')) ''data'' Map.empty
            = Inr (Some [?st], [''data/wp_2020_data.json'' \<mapsto> ''[]''])"
    using w bt c by (simp add: save_data_as_json_def process_link_def save_cache_def)
  have "?st \<in> set [?st]"
    using mf sd w bt by simp
  with i a sd show ?thesis by simp
qed

section \<open>The dataset cache\<close>

lemma load_after_save:
  "load_cache load year basin_name folder_path (save_cache dump data year basin_name folder_path fs)
     = load (dump data)"
  by (simp add: load_cache_def save_cache_def)



lemma saved_dataset_loads:
  assumes "save_data_as_json E year basin_name month folder_path fs = Inr (Some D, fs')"
    and "json_load E (json_dump E D) = Some D"
  shows "load_cache (json_load E) year basin_name folder_path fs' = Some D"
proof -
  from assms(1) have "fs' = save_cache (json_dump E) D year basin_name folder_path fs"
    by (rule save_data_as_json_Some)
  with assms(2) show ?thesis by (simp add: load_after_save)
qed




section \<open>Exceptions that leave the pipeline\<close>
























lemma pipeline_example:
  "scrape_typhoon_data
        \<lparr>fetch_year_page = (\<lambda>y. Inr None),
         extract_links_from_second_table = (\<lambda>p. Inr (Some [(''Western Pacific'', [''a'', ''b''])])),
         get_typhoon_name_from_link = (\<lambda>l. if l = ''a'' then Inr None else Inr (Some ''Typhoon HAIYAN 2020'')),
         scrape_fourth_table = (\<lambda>l. Inr (Some
            [[''1'', ''2020-05-31 18:00:00'', ''TS'', ''10.5'', ''120.0'', ''40'', ''990''],
             [''2'', ''06h'', ''TS'', '''', ''N / A'', '''', ''985'']])),
         to_float = (\<lambda>s. Some s), timestamp = (\<lambda>t. 0),
         json_dump = (\<lambda>d. ''[]''), json_load = (\<lambda>s. None)\<rparr>
        ''2020'' ''Western Pacific'' None ''data'' Map.empty
   = Inr (Some [\<lparr>name = ''HAIYAN'',
                  path = [\<lparr>tp_time = Some ''2020-05-31 18:00'', tp_lat = Some ''10.5'',
                            tp_long = Some ''120.0'', tp_speed = ''40'', tp_pressure = ''990'',
                            tp_class = 1\<rparr>,
                          \<lparr>tp_time = Some ''2020-05-31 06h'', tp_lat = Some ''10.5'',
                            tp_long = None, tp_speed = ''40'', tp_pressure = ''985'',
                            tp_class = 1\<rparr>],
                  start_time = Epoch 0\<rparr>],
          [''data/wp_2020_data.json'' \<mapsto> ''[]''])"
proof -
  have w: "working_name ''Typhoon HAIYAN 2020'' = ''HAIYAN''" by code_simp
  have bt: "build_track (\<lambda>s. Some s) (\<lambda>t. 0) None ''HAIYAN''
             (map (map Some) [[''1'', ''2020-05-31 18:00:00'', ''TS'', ''10.5'', ''120.0'', ''40'', ''990''],
                              [''2'', ''06h'', ''TS'', '''', ''N / A'', '''', ''985'']])
            = Inr \<lparr>name = ''HAIYAN'',
                  path = [\<lparr>tp_time = Some ''2020-05-31 18:00'', tp_lat = Some ''10.5'',
                            tp_long = Some ''120.0'', tp_speed = ''40'', tp_pressure = ''990'',
                            tp_class = 1\<rparr>,
                          \<lparr>tp_time = Some ''2020-05-31 06h'', tp_lat = Some ''10.5'',
                            tp_long = None, tp_speed = ''40'', tp_pressure = ''985'',
                            tp_class = 1\<rparr>],
                  start_time = Epoch 0\<rparr>" by code_simp
  have c: "cache_file ''2020'' ''Western Pacific'' ''data'' = ''data/wp_2020_data.json''"
    by code_simp
  show ?thesis
    using w bt c
    by (simp add: scrape_typhoon_data_def load_cache_def save_data_as_json_def process_link_def
        save_cache_def)
qed

end
